theory Spec2Isabelle
  imports Main
begin

section \<open>Exceptions as values\<close>

text \<open>
  The Python exceptions the modelled handlers raise. A handler returns
  \<open>error + 'a\<close>, with \<open>Inl\<close> for a raised exception; \<open>SystemExit\<close> is
  what \<open>sys.exit\<close> raises.
\<close>

datatype error =
    NameError string
  | AttributeError string
  | KeyError string
  | ValueError string
  | TypeError string
  | IOError string
  | MalformedRequestError string
  | MultipleResultsFound
  | InternalServerError string
  | SystemExit int
  | ExternalError string

section \<open>tmserver/appfactory.py: recovery of interrupted tasks at startup\<close>

text \<open>
  The two tables the query of \<open>get_interrupted_tasks\<close> reads. Only the columns
  the handlers of this repository touch are kept. \<open>top_task_id\<close> is empty
  for a submission whose top task has not been stored yet; the state of a
  stored task is taken to be set, the exitcode is empty until the task ends.
\<close>

record submission =
  submission_id :: int
  top_task_id :: "int option"

record task =
  task_id :: int
  task_state :: string
  task_exitcode :: "int option"
  task_submission_id :: int

record main_db =
  submissions :: "submission list"
  tasks :: "task list"

definition not_resubmitted_states :: "string set" where
  "not_resubmitted_states = {''STOPPED'', ''TERMINATED'', ''TERMINATING''}"

text \<open>
  \<open>get_interrupted_tasks\<close>: the ids of the tasks whose id is among the
  \<open>top_task_id\<close> column of the submissions and whose state is outside the
  three states (the two \<open>filter\<close> arguments of the query are conjoined).
\<close>

definition get_interrupted_tasks :: "main_db \<Rightarrow> int list" where
  "get_interrupted_tasks db =
     (let top_task_ids = map top_task_id (submissions db);
          found = filter
            (\<lambda>t. Some (task_id t) \<in> set top_task_ids \<and>
                 task_state t \<notin> not_resubmitted_states)
            (tasks db)
      in map task_id found)"

text \<open>
  The gc3pie extension is not part of the modelled files: \<open>retrieve_task\<close> is a
  parameter, and the engine is the list of the tasks handed to
  \<open>continue_task\<close>, in the order of the calls.
\<close>

definition continue_task :: "'t \<Rightarrow> 't list \<Rightarrow> 't list" where
  "continue_task t engine = engine @ [t]"

text \<open>The loop \<open>for tid in task_ids\<close> at the end of \<open>create_app\<close>.\<close>

fun continue_all :: "(int \<Rightarrow> 't) \<Rightarrow> int list \<Rightarrow> 't list \<Rightarrow> 't list" where
  "continue_all retrieve_task [] engine = engine"
| "continue_all retrieve_task (tid # tids) engine =
     continue_all retrieve_task tids (continue_task (retrieve_task tid) engine)"

text \<open>
  \<open>create_app\<close>, as far as it decides whether the recovery runs: an empty
  (or missing) secret key ends the process with \<open>sys.exit(1)\<close> before the
  recovery; the default key only logs a warning. The logging set-up, the error
  handlers and the blueprints do not touch the engine.
\<close>

definition create_app :: "string option \<Rightarrow> (int \<Rightarrow> 't) \<Rightarrow> main_db \<Rightarrow> 't list \<Rightarrow> error + 't list" where
  "create_app secret_key retrieve_task db engine =
     (if secret_key = Some ''default_secret_key''
      then Inr (continue_all retrieve_task (get_interrupted_tasks db) engine)
      else if secret_key = None \<or> secret_key = Some []
      then Inl (SystemExit 1)
      else Inr (continue_all retrieve_task (get_interrupted_tasks db) engine))"

text \<open>
  A database for the examples: three submissions (one without a top task) and
  three tasks, of which only task 10 is a top task in a state to resubmit.
\<close>

definition example_main_db :: main_db where
  "example_main_db =
     \<lparr>submissions =
        [\<lparr>submission_id = 1, top_task_id = Some 10\<rparr>,
         \<lparr>submission_id = 2, top_task_id = Some 11\<rparr>,
         \<lparr>submission_id = 3, top_task_id = None\<rparr>],
      tasks =
        [\<lparr>task_id = 10, task_state = ''RUNNING'', task_exitcode = None,
           task_submission_id = 1\<rparr>,
         \<lparr>task_id = 11, task_state = ''TERMINATED'', task_exitcode = Some 0,
           task_submission_id = 2\<rparr>,
         \<lparr>task_id = 12, task_state = ''RUNNING'', task_exitcode = Some 1,
           task_submission_id = 1\<rparr>]\<rparr>"

section \<open>Strings, paths and patterns as the handlers use them\<close>

abbreviation newline :: char where
  "newline \<equiv> CHR 0x0A"

definition is_digit :: "char \<Rightarrow> bool" where
  "is_digit c = (c \<in> set ''0123456789'')"

definition digit_value :: "char \<Rightarrow> nat" where
  "digit_value c = length (takeWhile (\<lambda>d. d \<noteq> c) ''0123456789'')"

text \<open>\<open>int(s)\<close> for a string of decimal digits.\<close>

definition py_int :: "string \<Rightarrow> nat" where
  "py_int s = foldl (\<lambda>a c. 10 * a + digit_value c) 0 s"

text \<open>\<open>str(n)\<close> for a natural number, and \<open>'%.5d' % j\<close>: at least five digits.\<close>

fun str_nat :: "nat \<Rightarrow> string" where
  "str_nat n =
     (if n < 10 then [''0123456789'' ! n]
      else str_nat (n div 10) @ [''0123456789'' ! (n mod 10)])"

declare str_nat.simps [simp del]

definition format_5d :: "nat \<Rightarrow> string" where
  "format_5d j = replicate (5 - length (str_nat j)) CHR ''0'' @ str_nat j"

text \<open>\<open>os.path.join\<close> of two components, \<open>os.path.basename\<close>, and the first
  component of \<open>os.path.splitext\<close> for a name without a slash (a dot splits
  only when a character other than a dot stands before it).\<close>

definition path_join :: "string \<Rightarrow> string \<Rightarrow> string" where
  "path_join a b =
     (if b \<noteq> [] \<and> hd b = CHR ''/'' then b
      else if a = [] \<or> last a = CHR ''/'' then a @ b
      else a @ ''/'' @ b)"

definition basename :: "string \<Rightarrow> string" where
  "basename p = rev (takeWhile (\<lambda>c. c \<noteq> CHR ''/'') (rev p))"

definition splitext_root :: "string \<Rightarrow> string" where
  "splitext_root p =
     (if CHR ''.'' \<notin> set p then p
      else let root = rev (tl (dropWhile (\<lambda>c. c \<noteq> CHR ''.'') (rev p)))
           in if list_ex (\<lambda>c. c \<noteq> CHR ''.'') root then root else p)"

text \<open>
  The file system the handlers read: the content of each existing file by its
  path, and the names in each directory in the order \<open>os.listdir\<close> gives them
  (no names for a directory that does not exist).
\<close>

record filesystem =
  file_contents :: "string \<rightharpoonup> string"
  dir_entries :: "string \<Rightarrow> string list"

definition is_hidden :: "string \<Rightarrow> bool" where
  "is_hidden n = (case n of [] \<Rightarrow> False | c # _ \<Rightarrow> c = CHR ''.'')"

definition ends_with :: "string \<Rightarrow> string \<Rightarrow> bool" where
  "ends_with s tail =
     (length tail \<le> length s \<and> drop (length s - length tail) s = tail)"

text \<open>
  \<open>glob.glob(os.path.join(dir, '*' + tail))\<close> for a directory name without
  pattern characters: the names of the directory that do not start with a dot
  and end with \<open>tail\<close>, in the order of the listing, each joined to the
  directory.
\<close>

definition glob_star :: "filesystem \<Rightarrow> string \<Rightarrow> string \<Rightarrow> string list" where
  "glob_star fs dir tail =
     map (path_join dir)
       (filter (\<lambda>n. \<not> is_hidden n \<and> ends_with n tail) (dir_entries fs dir))"

text \<open>
  \<open>re.search(r'_(\d+)$', s)\<close>: the leftmost underscore followed by one or more
  digits up to the end of the string (or up to a newline that ends it); the
  result is group 1.
\<close>

definition digits_to_end :: "string \<Rightarrow> bool" where
  "digits_to_end s =
     (takeWhile is_digit s \<noteq> [] \<and>
      (dropWhile is_digit s = [] \<or> dropWhile is_digit s = [newline]))"

fun search_job_index :: "string \<Rightarrow> string option" where
  "search_job_index [] = None"
| "search_job_index (c # cs) =
     (if c = CHR ''_'' \<and> digits_to_end cs then Some (takeWhile is_digit cs)
      else search_job_index cs)"

text \<open>
  \<open>re.match('(.*)_\d+\.', s)\<close>: group 1 is the longest prefix without a
  newline after which an underscore, one or more digits and a dot follow.
\<close>

definition underscore_digits_dot :: "string \<Rightarrow> bool" where
  "underscore_digits_dot s =
     (case s of
        [] \<Rightarrow> False
      | c # r \<Rightarrow>
          c = CHR ''_'' \<and> takeWhile is_digit r \<noteq> [] \<and>
          (case dropWhile is_digit r of [] \<Rightarrow> False | d # _ \<Rightarrow> d = CHR ''.''))"

definition match_module_name :: "string \<Rightarrow> string option" where
  "match_module_name s =
     (let n = length (takeWhile (\<lambda>c. c \<noteq> newline) s)
      in case find (\<lambda>k. underscore_digits_dot (drop k s)) (rev [0..<Suc n]) of
           None \<Rightarrow> None
         | Some k \<Rightarrow> Some (take k s))"

text \<open>\<open>dict(pairs)\<close>: the last pair of a key is the one kept.\<close>

definition py_dict :: "('k \<times> 'v) list \<Rightarrow> ('k \<rightharpoonup> 'v)" where
  "py_dict pairs = map_of (rev pairs)"

text \<open>A list comprehension whose elements may raise: the first exception ends it.\<close>

fun collect :: "(error + 'a) list \<Rightarrow> error + 'a list" where
  "collect [] = Inr []"
| "collect (r # rs) =
     (case r of
        Inl e \<Rightarrow> Inl e
      | Inr x \<Rightarrow> (case collect rs of Inl e \<Rightarrow> Inl e | Inr xs \<Rightarrow> Inr (x # xs)))"

section \<open>jtui/api.py: list\_module\_names\<close>

record pipeline_module =
  handles :: string
  module_source :: string
  active :: bool

definition list_module_names :: "pipeline_module list \<Rightarrow> string list" where
  "list_module_names pipeline =
     map (\<lambda>m. splitext_root (splitext_root (basename (handles m))))
       (filter active pipeline)"

section \<open>jtui/api.py: \_get\_output\<close>

text \<open>
  The jobs of a submission as \<open>iter_workflow\<close> and \<open>iter_tasks\<close> yield them;
  the two \<open>isinstance\<close> tests become the constructors.
\<close>

record run_job =
  jobname :: string
  output_dir :: string
  stdout :: string
  stderr :: string
  persistent_id :: int

datatype subtask = RunJob run_job | OtherSubtask

datatype workflow_task = RunJobCollection "subtask list" | OtherTask

record module_output =
  mod_name :: string
  mod_stdout :: "string option"
  mod_stderr :: "string option"

record job_output =
  out_id :: nat
  out_submissionId :: int
  out_name :: string
  out_log :: string
  out_modules :: "module_output list"
  out_failed :: bool

definition job_index :: "string \<Rightarrow> error + nat" where
  "job_index name =
     (case search_job_index name of
        None \<Rightarrow> Inl (AttributeError ''group'')
      | Some ds \<Rightarrow> Inr (py_int ds))"

text \<open>The job's own log file: its content when the path exists, else the empty string.\<close>

definition read_or_empty :: "filesystem \<Rightarrow> string \<Rightarrow> string" where
  "read_or_empty fs p = (case file_contents fs p of None \<Rightarrow> [] | Some c \<Rightarrow> c)"

definition job_log :: "string \<Rightarrow> string \<Rightarrow> string" where
  "job_log stdout_text stderr_text =
     (if stdout_text = [] \<and> stderr_text = [] then ''-- Job is still running --''
      else stdout_text @ [newline] @ stderr_text)"

definition read_file :: "filesystem \<Rightarrow> string \<Rightarrow> error + string" where
  "read_file fs p =
     (case file_contents fs p of None \<Rightarrow> Inl (IOError p) | Some c \<Rightarrow> Inr c)"

definition module_of_file :: "string \<Rightarrow> error + string" where
  "module_of_file f =
     (case match_module_name (basename f) of
        None \<Rightarrow> Inl (AttributeError ''group'')
      | Some m \<Rightarrow> Inr m)"

text \<open>
  \<open>dict(zip(module_file, [open(f).read() for f in files]))\<close>: the keys are the
  names in \<open>module_file\<close>, whatever list of files is read.
\<close>

definition module_logs ::
  "filesystem \<Rightarrow> string list \<Rightarrow> string list \<Rightarrow> error + (string \<rightharpoonup> string)" where
  "module_logs fs module_file files =
     (case collect (map (read_file fs) files) of
        Inl e \<Rightarrow> Inl e
      | Inr texts \<Rightarrow> Inr (py_dict (zip module_file texts)))"

text \<open>The body of the inner loop for one \<open>RunJob\<close>.\<close>

definition run_job_output ::
  "filesystem \<Rightarrow> main_db \<Rightarrow> string \<Rightarrow> string \<Rightarrow> string list \<Rightarrow> run_job
     \<Rightarrow> error + job_output" where
  "run_job_output fs db log_dir figures_dir module_names subtask =
     (case job_index (jobname subtask) of
        Inl e \<Rightarrow> Inl e
      | Inr j \<Rightarrow>
     let stdout_text = read_or_empty fs (path_join (output_dir subtask) (stdout subtask));
         stderr_text = read_or_empty fs (path_join (output_dir subtask) (stderr subtask));
         log = job_log stdout_text stderr_text;
         stdout_files = glob_star fs log_dir (''_'' @ format_5d j @ ''.out'');
         stderr_files = glob_star fs log_dir (''_'' @ format_5d j @ ''.err'');
         fig_files = glob_star fs figures_dir (''_'' @ format_5d j @ ''.json'')
     in
     case collect (map module_of_file stdout_files) of
        Inl e \<Rightarrow> Inl e
      | Inr module_file \<Rightarrow>
     case module_logs fs module_file stdout_files of
        Inl e \<Rightarrow> Inl e
      | Inr module_stdout \<Rightarrow>
     case module_logs fs module_file stderr_files of
        Inl e \<Rightarrow> Inl e
      | Inr module_stderr \<Rightarrow>
     case collect (map module_of_file fig_files) of
        Inl e \<Rightarrow> Inl e
      | Inr fig_names \<Rightarrow>
     let module_output =
           map (\<lambda>m. \<lparr>mod_name = m, mod_stdout = module_stdout m,
                      mod_stderr = module_stderr m\<rparr>) module_names
     in
     case find (\<lambda>t. task_id t = persistent_id subtask) (tasks db) of
        None \<Rightarrow> Inl (AttributeError ''exitcode'')
      | Some task_info \<Rightarrow>
          Inr \<lparr>out_id = j,
               out_submissionId = task_submission_id task_info,
               out_name = jobname subtask,
               out_log = log,
               out_modules = module_output,
               out_failed = (task_exitcode task_info \<noteq> Some 0)\<rparr>)"

text \<open>The two loops, with \<open>output\<close> the list built so far.\<close>

fun subtask_outputs ::
  "filesystem \<Rightarrow> main_db \<Rightarrow> string \<Rightarrow> string \<Rightarrow> string list \<Rightarrow> subtask list
     \<Rightarrow> job_output list \<Rightarrow> error + job_output list" where
  "subtask_outputs fs db log_dir figures_dir module_names [] output = Inr output"
| "subtask_outputs fs db log_dir figures_dir module_names (OtherSubtask # rest) output =
     subtask_outputs fs db log_dir figures_dir module_names rest output"
| "subtask_outputs fs db log_dir figures_dir module_names (RunJob r # rest) output =
     (case run_job_output fs db log_dir figures_dir module_names r of
        Inl e \<Rightarrow> Inl e
      | Inr entry \<Rightarrow>
          subtask_outputs fs db log_dir figures_dir module_names rest (output @ [entry]))"

fun workflow_outputs ::
  "filesystem \<Rightarrow> main_db \<Rightarrow> string \<Rightarrow> string \<Rightarrow> string list \<Rightarrow> workflow_task list
     \<Rightarrow> job_output list \<Rightarrow> error + job_output list" where
  "workflow_outputs fs db log_dir figures_dir module_names [] output = Inr output"
| "workflow_outputs fs db log_dir figures_dir module_names (OtherTask # rest) output =
     workflow_outputs fs db log_dir figures_dir module_names rest output"
| "workflow_outputs fs db log_dir figures_dir module_names (RunJobCollection subs # rest) output =
     (case subtask_outputs fs db log_dir figures_dir module_names subs output of
        Inl e \<Rightarrow> Inl e
      | Inr output' \<Rightarrow>
          workflow_outputs fs db log_dir figures_dir module_names rest output')"

definition get_output ::
  "filesystem \<Rightarrow> main_db \<Rightarrow> workflow_task list \<Rightarrow> string \<Rightarrow> string \<Rightarrow> string list
     \<Rightarrow> error + job_output list" where
  "get_output fs db jobs log_dir figures_dir module_names =
     workflow_outputs fs db log_dir figures_dir module_names jobs []"

text \<open>The \<open>RunJob\<close>s of a submission in the order the two loops reach them.\<close>

definition run_jobs_of_subtasks :: "subtask list \<Rightarrow> run_job list" where
  "run_jobs_of_subtasks subs =
     concat (map (\<lambda>s. case s of RunJob r \<Rightarrow> [r] | OtherSubtask \<Rightarrow> []) subs)"

definition run_jobs_of :: "workflow_task list \<Rightarrow> run_job list" where
  "run_jobs_of jobs =
     concat (map (\<lambda>t. case t of
                     RunJobCollection subs \<Rightarrow> run_jobs_of_subtasks subs
                   | OtherTask \<Rightarrow> []) jobs)"

section \<open>jtui/api.py: get\_available\_jtpipelines\<close>

text \<open>
  \<open>repo_dir\<close> is the value of \<open>JTUI_REPO_DIR_LOCATION\<close> in the application's
  configuration (\<open>None\<close> when it is not set: \<open>os.path.join(None, 'pipes')\<close>
  raises). \<open>list_projects\<close> belongs to tmlib and is a parameter; it may raise,
  as for a directory that does not exist.
\<close>

definition get_available_jtpipelines ::
  "string option \<Rightarrow> (string \<Rightarrow> error + string list) \<Rightarrow> error + string list" where
  "get_available_jtpipelines repo_dir list_projects =
     (case repo_dir of
        None \<Rightarrow> Inl (AttributeError ''endswith'')
      | Some location \<Rightarrow>
          (case list_projects (path_join location ''pipes'') of
             Inl e \<Rightarrow> Inl e
           | Inr projects \<Rightarrow>
               let pipes = map basename projects;
                   pipes = []
               in Inr pipes))"

section \<open>jtui/api.py: create\_joblist\<close>

text \<open>
  The names bound at module level in \<open>jtui/api.py\<close>: its imports, \<open>jtui\<close>,
  \<open>logger\<close> and its functions. A name a function reads that is neither one of
  its locals, nor one of these, nor a builtin raises \<open>NameError\<close>.
\<close>

definition api_globals :: "string list" where
  "api_globals =
     [''os'', ''time'', ''json'', ''re'', ''glob'', ''yaml'', ''logging'',
      ''natsorted'', ''send_file'', ''jsonify'', ''request'', ''Blueprint'',
      ''current_app'', ''jwt_required'', ''websocket'', ''extract_model_from_path'',
      ''gc3pie'', ''db'', ''tm'', ''Experiment'', ''get_step_args'', ''RunJob'',
      ''RunJobCollection'', ''cluster_utils'', ''ImageAnalysisPipeline'',
      ''configure_logging'', ''list_projects'', ''Project'', ''AvailableModules'',
      ''jtui'', ''logger'', ''list_module_names'', ''get_projects'',
      ''get_available_jtprojects'', ''get_jtproject'', ''get_available_jtmodules'',
      ''get_available_jtpipelines'', ''get_available_channels'',
      ''get_module_source_code'', ''get_module_figure'', ''create_joblist'',
      ''save_jtproject'', ''check_jtproject'', ''remove_jtproject'',
      ''create_jtproject'', ''kill_jobs'', ''_get_output'', ''get_job_status'',
      ''get_job_output'', ''run_jobs'']"

text \<open>
  Reading a global name: \<open>bound\<close> gives the value of each bound name. The
  values of the names \<open>create_joblist\<close> reads are either opaque objects or,
  for \<open>channel_ids\<close>, a list of ids.
\<close>

datatype py_value = PyObject | PyIds "int list"

definition read_global :: "(string \<rightharpoonup> py_value) \<Rightarrow> string \<Rightarrow> error + py_value" where
  "read_global bound name =
     (case bound name of
        None \<Rightarrow> Inl (NameError name)
      | Some v \<Rightarrow> Inr v)"

text \<open>The module as it is: every name of \<open>api_globals\<close> bound, and no other.\<close>

definition api_module :: "string \<rightharpoonup> py_value" where
  "api_module = map_of (map (\<lambda>n. (n, PyObject)) api_globals)"

text \<open>\<open>str(e)\<close> for the exceptions the body of the \<open>try\<close> can raise.\<close>

definition error_message :: "error \<Rightarrow> string" where
  "error_message e =
     (case e of
        NameError n \<Rightarrow> ''global name '' @ [CHR 0x27] @ n @ [CHR 0x27] @ '' is not defined''
      | AttributeError a \<Rightarrow> a
      | KeyError k \<Rightarrow> [CHR 0x27] @ k @ [CHR 0x27]
      | ValueError m \<Rightarrow> m
      | TypeError m \<Rightarrow> m
      | IOError m \<Rightarrow> m
      | MalformedRequestError m \<Rightarrow> m
      | MultipleResultsFound \<Rightarrow> ''Multiple rows were found for one_or_none()''
      | InternalServerError m \<Rightarrow> m
      | SystemExit n \<Rightarrow> []
      | ExternalError m \<Rightarrow> m)"

record batch =
  batch_id :: int
  image_file_ids :: "(string \<times> int list) list option"

record channel_image =
  tpoint :: int
  zplane :: int
  channel_index :: int
  well_name :: string
  plate_name :: string

record joblist_response =
  joblist :: "(int \<rightharpoonup> channel_image) option"
  joblist_error :: "string option"

text \<open>
  The loop over the batches inside the \<open>try\<close>. \<open>flatten\<close> is read before its
  argument; its result \<open>file_ids\<close> is not used afterwards. The query takes the
  value of \<open>channel_ids\<close>; each file of the result overwrites the entry of the
  batch, so the last one stays.
\<close>

fun joblist_metadata ::
  "(string \<rightharpoonup> py_value) \<Rightarrow> (int list \<Rightarrow> channel_image list) \<Rightarrow> batch list
     \<Rightarrow> (int \<rightharpoonup> channel_image) \<Rightarrow> error + (int \<rightharpoonup> channel_image)" where
  "joblist_metadata bound query_channel_images [] metadata = Inr metadata"
| "joblist_metadata bound query_channel_images (b # batches) metadata =
     (case read_global bound ''flatten'' of
        Inl e \<Rightarrow> Inl e
      | Inr flatten \<Rightarrow>
     case image_file_ids b of
        None \<Rightarrow> Inl (KeyError ''image_file_ids'')
      | Some ids \<Rightarrow>
     case read_global bound ''channel_ids'' of
        Inl e \<Rightarrow> Inl e
      | Inr PyObject \<Rightarrow> Inl (ExternalError ''in_'')
      | Inr (PyIds channel_ids) \<Rightarrow>
          joblist_metadata bound query_channel_images batches
            (foldl (\<lambda>m f. m(batch_id b \<mapsto> f)) metadata (query_channel_images channel_ids)))"

text \<open>
  \<open>create_joblist\<close>. \<open>jtproject\<close> is the decoded payload of the request, reduced
  to its integer entries (\<open>None\<close> when the request has no key \<open>jtproject\<close>);
  \<open>create_batches\<close> and the query of the channel images belong to tmlib and are
  parameters. The name \<open>pipeline\<close> is read before the \<open>try\<close>, among the
  arguments of \<open>ImageAnalysisPipeline\<close>.
\<close>

definition create_joblist ::
  "(string \<rightharpoonup> py_value) \<Rightarrow> (int \<Rightarrow> batch list) \<Rightarrow> (int list \<Rightarrow> channel_image list)
     \<Rightarrow> (string \<rightharpoonup> int) option \<Rightarrow> error + joblist_response" where
  "create_joblist bound create_batches query_channel_images jtproject =
     (case jtproject of
        None \<Rightarrow> Inl (KeyError ''jtproject'')
      | Some data \<Rightarrow>
     case data ''experiment_id'' of
        None \<Rightarrow> Inl (KeyError ''experiment_id'')
      | Some experiment_id \<Rightarrow>
     case read_global bound ''pipeline'' of
        Inl e \<Rightarrow> Inl e
      | Inr pipeline \<Rightarrow>
     let batches = create_batches experiment_id
     in case joblist_metadata bound query_channel_images batches Map.empty of
          Inr metadata \<Rightarrow> Inr \<lparr>joblist = Some metadata, joblist_error = None\<rparr>
        | Inl e \<Rightarrow> Inr \<lparr>joblist = None, joblist_error = Some (error_message e)\<rparr>)"

text \<open>One batch with two image files, for the examples.\<close>

definition example_batches :: "int \<Rightarrow> batch list" where
  "example_batches experiment_id =
     [\<lparr>batch_id = 1, image_file_ids = Some [(''DAPI'', [4, 5])]\<rparr>]"

definition example_list_projects :: "string \<Rightarrow> error + string list" where
  "example_list_projects d = Inr [d @ ''/jterator_a'', d @ ''/jterator_b'']"

definition example_channel_images :: "int list \<Rightarrow> channel_image list" where
  "example_channel_images ids =
     map (\<lambda>i. \<lparr>tpoint = 0, zplane = 0, channel_index = 0, well_name = ''A01'',
                plate_name = ''plate1''\<rparr>) ids"

section \<open>An example submission and its output directories\<close>

text \<open>
  One job (index 1) of a pipeline with three active modules. In the module-log
  directory the module \<open>smooth\<close> has written its stdout file only, the module
  \<open>segment\<close> both files; a file of job 2 and a hidden file stand beside them.
\<close>

definition example_pipeline :: "pipeline_module list" where
  "example_pipeline =
     [\<lparr>handles = ''handles/smooth.handles.yaml'', module_source = ''smooth.py'',
        active = True\<rparr>,
      \<lparr>handles = ''handles/threshold.handles.yaml'', module_source = ''threshold.py'',
        active = False\<rparr>,
      \<lparr>handles = ''handles/segment.handles.yaml'', module_source = ''segment.py'',
        active = True\<rparr>]"

definition example_fs :: filesystem where
  "example_fs =
     \<lparr>file_contents = map_of
        [(''/exp/out/job.out'', ''job started''),
         (''/exp/logs/smooth_00001.out'', ''smooth: done''),
         (''/exp/logs/segment_00001.out'', ''segment: done''),
         (''/exp/logs/segment_00001.err'', ''segment: warning''),
         (''/exp/logs/smooth_00002.out'', ''smooth: other job''),
         (''/exp/logs/.smooth_00001.out'', ''editor backup'')],
      dir_entries = (\<lambda>d.
        if d = ''/exp/logs''
        then [''smooth_00001.out'', ''segment_00001.out'', ''segment_00001.err'',
              ''smooth_00002.out'', ''.smooth_00001.out'']
        else [])\<rparr>"

definition example_job :: run_job where
  "example_job =
     \<lparr>jobname = ''jterator_run_000001'', output_dir = ''/exp/out'',
      stdout = ''job.out'', stderr = ''job.err'', persistent_id = 12\<rparr>"

definition example_jobs :: "workflow_task list" where
  "example_jobs = [OtherTask, RunJobCollection [OtherSubtask, RunJob example_job]]"

text \<open>What \<open>_get_output\<close> returns for the example.\<close>

definition example_output :: "job_output list" where
  "example_output =
     [\<lparr>out_id = 1, out_submissionId = 1, out_name = ''jterator_run_000001'',
       out_log = ''job started'' @ [newline],
       out_modules =
         [\<lparr>mod_name = ''smooth'', mod_stdout = Some ''smooth: done'',
            mod_stderr = Some ''segment: warning''\<rparr>,
          \<lparr>mod_name = ''segment'', mod_stdout = Some ''segment: done'',
            mod_stderr = None\<rparr>],
       out_failed = True\<rparr>]"

text \<open>
  The same job with a stderr file for each module, where the directory lists
  the two stderr files in the other order than the two stdout files.
\<close>

definition example_fs_both :: filesystem where
  "example_fs_both =
     \<lparr>file_contents = map_of
        [(''/exp/out/job.out'', ''job started''),
         (''/exp/logs/smooth_00001.out'', ''smooth: done''),
         (''/exp/logs/segment_00001.out'', ''segment: done''),
         (''/exp/logs/segment_00001.err'', ''segment: warning''),
         (''/exp/logs/smooth_00001.err'', ''smooth: warning'')],
      dir_entries = (\<lambda>d.
        if d = ''/exp/logs''
        then [''smooth_00001.out'', ''segment_00001.out'', ''segment_00001.err'',
              ''smooth_00001.err'']
        else [])\<rparr>"

text \<open>
  A second job (index 2) of the same submission that has not ended: its task is
  task 10 of the example database, whose exitcode is not stored yet, and it has
  written neither of its own log files.
\<close>

definition example_running_job :: run_job where
  "example_running_job =
     \<lparr>jobname = ''jterator_run_000002'', output_dir = ''/exp/out2'',
      stdout = ''job.out'', stderr = ''job.err'', persistent_id = 10\<rparr>"

definition example_running_jobs :: "workflow_task list" where
  "example_running_jobs = [RunJobCollection [RunJob example_running_job]]"

section \<open>tmserver/experiment/upload.py\<close>

text \<open>
  The tables of the experiment database the upload handlers use. The status of
  an acquisition is a property the model class computes; the handlers only read
  it. A new file record starts in the state \<open>WAITING\<close>.
\<close>

datatype upload_status = WAITING | UPLOADING | COMPLETE | FAILED

record microscope_file =
  file_name :: string
  file_acquisition_id :: int
  file_status :: upload_status

record acquisition =
  acq_id :: int
  acq_status :: upload_status

record experiment_db =
  acquisitions :: "acquisition list"
  microscope_image_files :: "microscope_file list"
  microscope_metadata_files :: "microscope_file list"

definition new_microscope_file :: "string \<Rightarrow> int \<Rightarrow> microscope_file" where
  "new_microscope_file name acquisition_id =
     \<lparr>file_name = name, file_acquisition_id = acquisition_id, file_status = WAITING\<rparr>"

text \<open>\<open>session.query(tm.Acquisition).get(acquisition_id)\<close>.\<close>

definition get_acquisition :: "experiment_db \<Rightarrow> int \<Rightarrow> acquisition option" where
  "get_acquisition db acquisition_id =
     find (\<lambda>a. acq_id a = acquisition_id) (acquisitions db)"

text \<open>The records an acquisition owns (its two relationships).\<close>

definition files_of :: "int \<Rightarrow> microscope_file list \<Rightarrow> microscope_file list" where
  "files_of acquisition_id table =
     filter (\<lambda>f. file_acquisition_id f = acquisition_id) table"

text \<open>
  \<open>register_upload\<close>. The two regular expressions of the experiment's
  microscope type and werkzeug's \<open>secure_filename\<close> are parameters; \<open>files\<close>
  is the value of the key \<open>files\<close> of the request, \<open>None\<close> when the key is
  missing. The handler returns its response or the exception, and the database
  it leaves.
\<close>

definition register_upload ::
  "(string \<Rightarrow> bool) \<Rightarrow> (string \<Rightarrow> bool) \<Rightarrow> (string \<Rightarrow> string) \<Rightarrow> experiment_db
     \<Rightarrow> int \<Rightarrow> string list option \<Rightarrow> (error + string) \<times> experiment_db" where
  "register_upload imgfile_regex metadata_regex secure_filename db acquisition_id files =
     (if length (case files of None \<Rightarrow> [] | Some fs \<Rightarrow> fs) = 0
      then (Inl (MalformedRequestError ''No files supplied. Cannot register upload.''), db)
      else
        case get_acquisition db acquisition_id of
          None \<Rightarrow> (Inl (AttributeError ''microscope_image_files''), db)
        | Some acquisition \<Rightarrow>
            let data_files = (case files of None \<Rightarrow> [] | Some fs \<Rightarrow> fs);
                img_filenames =
                  map file_name (files_of (acq_id acquisition) (microscope_image_files db));
                img_files =
                  map (\<lambda>f. new_microscope_file (secure_filename f) (acq_id acquisition))
                    (filter (\<lambda>f. imgfile_regex f \<and> secure_filename f \<notin> set img_filenames)
                       data_files);
                meta_filenames =
                  map file_name (files_of (acq_id acquisition) (microscope_metadata_files db));
                meta_files =
                  map (\<lambda>f. new_microscope_file (secure_filename f) (acq_id acquisition))
                    (filter (\<lambda>f. metadata_regex f \<and> secure_filename f \<notin> set meta_filenames)
                       data_files)
            in (Inr ''ok'',
                db\<lparr>microscope_image_files := microscope_image_files db @ img_files,
                   microscope_metadata_files := microscope_metadata_files db @ meta_files\<rparr>))"

text \<open>\<open>Query.one_or_none\<close>: more than one row raises.\<close>

definition one_or_none :: "'a list \<Rightarrow> error + 'a option" where
  "one_or_none rows =
     (case rows of
        [] \<Rightarrow> Inr None
      | [x] \<Rightarrow> Inr (Some x)
      | _ \<Rightarrow> Inl MultipleResultsFound)"

definition quoted :: "string \<Rightarrow> string" where
  "quoted s = [CHR 0x22] @ s @ [CHR 0x22]"






text \<open>An experiment with one acquisition, one registered image and one file
  registered in both tables.\<close>

definition example_experiment_db :: experiment_db where
  "example_experiment_db =
     \<lparr>acquisitions = [\<lparr>acq_id = 7, acq_status = WAITING\<rparr>],
      microscope_image_files =
        [\<lparr>file_name = ''a.png'', file_acquisition_id = 7, file_status = WAITING\<rparr>,
         \<lparr>file_name = ''both.xml'', file_acquisition_id = 7, file_status = WAITING\<rparr>],
      microscope_metadata_files =
        [\<lparr>file_name = ''both.xml'', file_acquisition_id = 7, file_status = WAITING\<rparr>]\<rparr>"

definition example_imgfile_regex :: "string \<Rightarrow> bool" where
  "example_imgfile_regex f = ends_with f ''.png''"

definition example_metadata_regex :: "string \<Rightarrow> bool" where
  "example_metadata_regex f = ends_with f ''.xml''"

text \<open>A stand-in for \<open>secure_filename\<close> in the examples: spaces become underscores.\<close>

definition example_secure_filename :: "string \<Rightarrow> string" where
  "example_secure_filename f = map (\<lambda>c. if c = CHR '' '' then CHR ''_'' else c) f"

section \<open>tmaps/tool/result.py\<close>

text \<open>
  The values of the JSON columns and of the labels. A list or an object is not
  hashable in Python, so it cannot be put into a \<open>set\<close>.
\<close>

datatype json = JNull | JNum int | JStr string | JList "json list"
  | JObject "(string \<times> json) list"

fun hashable :: "json \<Rightarrow> bool" where
  "hashable (JList xs) = False"
| "hashable (JObject kvs) = False"
| "hashable j = True"

record result =
  result_id :: nat
  result_name :: string
  result_tool_session_id :: int

record label_layer =
  layer_id :: nat
  layer_type :: string
  layer_attributes :: "string \<rightharpoonup> json"
  layer_mapobject_type_id :: int
  layer_result_id :: "nat option"

record label_layer_label =
  label :: json
  label_mapobject_id :: int
  label_layer_id :: nat

record plot =
  plot_type :: "string option"
  plot_attributes :: "string \<rightharpoonup> json"
  plot_result_id :: "nat option"

record tool_db =
  results :: "result list"
  label_layers :: "label_layer list"
  label_layer_labels :: "label_layer_label list"
  plots :: "plot list"

record tool_session =
  tool_session_id :: int
  tool_name :: string

text \<open>The id the database gives a row at \<open>flush\<close>: one not in use.\<close>

definition fresh_id :: "nat list \<Rightarrow> nat" where
  "fresh_id ids = Suc (fold max ids 0)"

text \<open>
  \<open>LabelLayer.__init__\<close>. \<open>class_name\<close> is \<open>self.__class__.__name__\<close>,
  \<open>labels\<close> the items of the dictionary. The constructor returns the new
  object and the session with the object (and its labels) added.
\<close>

definition LabelLayer_init ::
  "string \<Rightarrow> tool_db \<Rightarrow> int \<Rightarrow> (int \<times> json) list \<Rightarrow> (string \<rightharpoonup> json)
     \<Rightarrow> label_layer \<times> tool_db" where
  "LabelLayer_init class_name db mapobject_type_id labels extra_attributes =
     (let self = \<lparr>layer_id = fresh_id (map layer_id (label_layers db)),
                  layer_type = class_name,
                  layer_attributes = extra_attributes,
                  layer_mapobject_type_id = mapobject_type_id,
                  layer_result_id = None\<rparr>;
          db1 = db\<lparr>label_layers := label_layers db @ [self]\<rparr>;
          label_objs =
            map (\<lambda>(mapobject_id, l).
                   \<lparr>label = l, label_mapobject_id = mapobject_id,
                    label_layer_id = layer_id self\<rparr>) labels
      in (self,
          if labels \<noteq> []
          then db1\<lparr>label_layer_labels := label_layer_labels db1 @ label_objs\<rparr>
          else db1))"

text \<open>
  \<open>ScalarLabelLayer.__init__\<close>: \<open>list(set(labels.values()))\<close> goes into the
  attributes under \<open>unique_labels\<close>. The order of that list is Python's set
  order; the model keeps one occurrence of each value in the order of the items,
  and the theorems below use only which values the list holds.
\<close>

definition ScalarLabelLayer_init ::
  "string \<Rightarrow> tool_db \<Rightarrow> int \<Rightarrow> (int \<times> json) list \<Rightarrow> (string \<rightharpoonup> json)
     \<Rightarrow> error + label_layer \<times> tool_db" where
  "ScalarLabelLayer_init class_name db mapobject_type_id labels extra_attributes =
     (if \<not> list_all hashable (map snd labels) then Inl (TypeError ''unhashable type'')
      else Inr (LabelLayer_init class_name db mapobject_type_id labels
                  (extra_attributes(''unique_labels'' \<mapsto> JList (remdups (map snd labels))))))"

definition SupervisedClassifierLabelLayer_init ::
  "string \<Rightarrow> tool_db \<Rightarrow> int \<Rightarrow> (int \<times> json) list \<Rightarrow> json \<Rightarrow> (string \<rightharpoonup> json)
     \<Rightarrow> error + label_layer \<times> tool_db" where
  "SupervisedClassifierLabelLayer_init class_name db mapobject_type_id labels color_map
       extra_attributes =
     ScalarLabelLayer_init class_name db mapobject_type_id labels
       (extra_attributes(''color_map'' \<mapsto> color_map))"

definition ContinuousLabelLayer_init ::
  "string \<Rightarrow> tool_db \<Rightarrow> int \<Rightarrow> (int \<times> json) list \<Rightarrow> (string \<rightharpoonup> json)
     \<Rightarrow> label_layer \<times> tool_db" where
  "ContinuousLabelLayer_init class_name db mapobject_type_id labels extra_attributes =
     LabelLayer_init class_name db mapobject_type_id labels extra_attributes"

definition HeatmapLabelLayer_init ::
  "string \<Rightarrow> tool_db \<Rightarrow> int \<Rightarrow> (string \<rightharpoonup> json) \<Rightarrow> error + label_layer \<times> tool_db" where
  "HeatmapLabelLayer_init class_name db mapobject_type_id extra_attributes =
     (if extra_attributes ''feature_id'' = None
      then Inl (ValueError (''Heatmap tool requires '' @ quoted ''feature_id'' @ '' attribute.''))
      else Inr (LabelLayer_init class_name db mapobject_type_id [] extra_attributes))"

text \<open>
  \<open>Plot.__init__\<close>: the first statement compares \<open>self.type\<close> with the class
  name and assigns nothing, so the type stays unset; the object is not added to
  the session here.
\<close>

definition Plot_init :: "(string \<rightharpoonup> json) \<Rightarrow> plot" where
  "Plot_init attributes =
     \<lparr>plot_type = None, plot_attributes = attributes, plot_result_id = None\<rparr>"

text \<open>
  \<open>Result.__init__\<close>. The layer is an object that its constructor has added to
  the session; \<open>layer\<close> is its id.
\<close>

definition Result_init ::
  "tool_db \<Rightarrow> tool_session \<Rightarrow> nat \<Rightarrow> string option \<Rightarrow> plot list \<Rightarrow> result \<times> tool_db" where
  "Result_init db session layer name new_plots =
     (let self = \<lparr>result_id = fresh_id (map result_id (results db)),
                  result_name =
                    (case name of None \<Rightarrow> tool_name session @ '' result'' | Some n \<Rightarrow> n),
                  result_tool_session_id = tool_session_id session\<rparr>
      in (self,
          db\<lparr>results := results db @ [self],
             label_layers :=
               map (\<lambda>l. if layer_id l = layer then l\<lparr>layer_result_id := Some (result_id self)\<rparr>
                         else l) (label_layers db),
             plots := plots db @
               map (\<lambda>p. p\<lparr>plot_result_id := Some (result_id self)\<rparr>) new_plots\<rparr>))"

definition empty_tool_db :: tool_db where
  "empty_tool_db = \<lparr>results = [], label_layers = [], label_layer_labels = [], plots = []\<rparr>"

definition example_labels :: "(int \<times> json) list" where
  "example_labels = [(1, JNum 5), (2, JStr ''a''), (3, JNum 5)]"

section \<open>Recovery of interrupted tasks: proofs\<close>

lemma continue_all_append:
  "continue_all retrieve_task tids engine = engine @ map retrieve_task tids"
  by (induction tids arbitrary: engine) (simp_all add: continue_task_def)

lemma set_get_interrupted_tasks:
  "set (get_interrupted_tasks db) =
     {task_id t | t. t \<in> set (tasks db) \<and>
        (\<exists>s. s \<in> set (submissions db) \<and> top_task_id s = Some (task_id t)) \<and>
        task_state t \<notin> not_resubmitted_states}"
  unfolding get_interrupted_tasks_def Let_def
  by (auto simp: image_iff; metis)

lemma distinct_get_interrupted_tasks:
  "distinct (map task_id (tasks db)) \<Longrightarrow> distinct (get_interrupted_tasks db)"
  by (simp add: get_interrupted_tasks_def Let_def distinct_map_filter)

text \<open>
  C1. When \<open>create_app\<close> gets past its check of the secret key (the server
  starts), the ids \<open>get_interrupted_tasks\<close> returns are those of precisely the
  tasks that are the top task of some submission and whose state is none of
  STOPPED, TERMINATED, TERMINATING; the calls of \<open>continue_task\<close> that
  \<open>create_app\<close> adds to the engine are one per returned id, in order, and
  nothing else; with \<open>id\<close> a key of the task table no id is returned twice.
\<close>

theorem create_app_resubmits_interrupted:
  assumes "secret_key \<noteq> None" and "secret_key \<noteq> Some []"
  shows "set (get_interrupted_tasks db) =
           {task_id t | t. t \<in> set (tasks db) \<and>
              (\<exists>s. s \<in> set (submissions db) \<and> top_task_id s = Some (task_id t)) \<and>
              task_state t \<notin> {''STOPPED'', ''TERMINATED'', ''TERMINATING''}}
         \<and> create_app secret_key retrieve_task db engine =
             Inr (engine @ map retrieve_task (get_interrupted_tasks db))
         \<and> (distinct (map task_id (tasks db)) \<longrightarrow> distinct (get_interrupted_tasks db))"
  using assms
  by (simp add: set_get_interrupted_tasks distinct_get_interrupted_tasks
      create_app_def continue_all_append not_resubmitted_states_def)

theorem create_app_resubmits_interrupted_witness:
  "get_interrupted_tasks example_main_db = [10]
   \<and> create_app (Some ''s3cret'') (\<lambda>tid. tid) example_main_db [] = Inr [10]
   \<and> distinct (get_interrupted_tasks example_main_db)"
  using create_app_resubmits_interrupted
    [where secret_key = "Some ''s3cret''" and db = example_main_db
       and retrieve_task = "\<lambda>tid. tid" and engine = "[]"]
  by (simp add: get_interrupted_tasks_def example_main_db_def
      not_resubmitted_states_def)

section \<open>\_get\_output: the loops\<close>

text \<open>
  The two loops hand each \<open>RunJob\<close>, in order, to the loop body and stop at
  the first exception: \<open>get_output\<close> is \<open>collect\<close> over the bodies' results.
\<close>

lemma collect_append:
  "collect (xs @ ys) =
     (case collect xs of
        Inl e \<Rightarrow> Inl e
      | Inr as \<Rightarrow> (case collect ys of Inl e \<Rightarrow> Inl e | Inr bs \<Rightarrow> Inr (as @ bs)))"
  by (induction xs) (auto split: sum.splits)

lemma subtask_outputs_collect:
  "subtask_outputs fs db log_dir figures_dir module_names subs acc =
     (case collect (map (run_job_output fs db log_dir figures_dir module_names)
                      (run_jobs_of_subtasks subs)) of
        Inl e \<Rightarrow> Inl e
      | Inr entries \<Rightarrow> Inr (acc @ entries))"
proof (induction subs arbitrary: acc)
  case Nil
  then show ?case by (simp add: run_jobs_of_subtasks_def)
next
  case (Cons s subs)
  show ?case
  proof (cases s)
    case (RunJob r)
    then show ?thesis
      using Cons.IH by (simp add: run_jobs_of_subtasks_def split: sum.splits)
  next
    case OtherSubtask
    then show ?thesis
      using Cons.IH by (simp add: run_jobs_of_subtasks_def)
  qed
qed

lemma run_jobs_of_Cons:
  "run_jobs_of (OtherTask # rest) = run_jobs_of rest"
  "run_jobs_of (RunJobCollection subs # rest) = run_jobs_of_subtasks subs @ run_jobs_of rest"
  by (simp_all add: run_jobs_of_def)

lemma workflow_outputs_collect:
  "workflow_outputs fs db log_dir figures_dir module_names jobs acc =
     (case collect (map (run_job_output fs db log_dir figures_dir module_names)
                      (run_jobs_of jobs)) of
        Inl e \<Rightarrow> Inl e
      | Inr entries \<Rightarrow> Inr (acc @ entries))"
proof (induction jobs arbitrary: acc)
  case Nil
  then show ?case by (simp add: run_jobs_of_def)
next
  case (Cons t jobs)
  show ?case
  proof (cases t)
    case (RunJobCollection subs)
    then show ?thesis
      using Cons.IH
      by (simp add: run_jobs_of_Cons subtask_outputs_collect collect_append
          split: sum.splits)
  next
    case OtherTask
    then show ?thesis
      using Cons.IH by (simp add: run_jobs_of_Cons)
  qed
qed

lemma get_output_collect:
  "get_output fs db jobs log_dir figures_dir module_names =
     collect (map (run_job_output fs db log_dir figures_dir module_names) (run_jobs_of jobs))"
  by (simp add: get_output_def workflow_outputs_collect split: sum.splits)

lemma collect_Inr_nth:
  "collect rs = Inr xs \<Longrightarrow> length xs = length rs \<and> (\<forall>i < length rs. rs ! i = Inr (xs ! i))"
proof (induction rs arbitrary: xs)
  case Nil
  then show ?case by simp
next
  case (Cons r rs)
  then show ?case
    by (auto split: sum.splits simp: nth_Cons split: nat.splits)
qed

lemma get_output_entry:
  assumes "get_output fs db jobs log_dir figures_dir module_names = Inr output"
    and "i < length output"
  shows "i < length (run_jobs_of jobs)"
    and "run_job_output fs db log_dir figures_dir module_names (run_jobs_of jobs ! i)
           = Inr (output ! i)"
  using collect_Inr_nth [OF assms(1) [unfolded get_output_collect]] assms(2)
  by simp_all

lemma example_get_output:
  "get_output example_fs example_main_db example_jobs ''/exp/logs'' ''/exp/figs''
     (list_module_names example_pipeline) = Inr example_output"
  by code_simp

section \<open>\_get\_output: what one entry holds\<close>


lemma run_job_output_task:
  assumes "run_job_output fs db log_dir figures_dir module_names r = Inr e"
  shows "\<exists>task_info.
           find (\<lambda>t. task_id t = persistent_id r) (tasks db) = Some task_info \<and>
           out_failed e = (task_exitcode task_info \<noteq> Some 0) \<and>
           out_submissionId e = task_submission_id task_info"
  using assms
  by (auto simp: run_job_output_def Let_def split: sum.splits option.splits)

lemma find_Some_member:
  "find P xs = Some x \<Longrightarrow> x \<in> set xs \<and> P x"
  by (induction xs) (auto split: if_splits)



text \<open>
  What \<open>failed = exitcode != 0\<close> computes. For every entry that
  \<open>_get_output\<close> reports, the task table holds a row for the persistent id of
  the entry's job, and \<open>submissionId\<close> is the row's submission id; \<open>failed\<close>
  is false exactly when the row's exitcode is stored and is 0. So it is true
  for a stored exitcode other than 0, and also for a row without an exitcode.
\<close>

theorem get_output_failed_and_submission:
  assumes "get_output fs db jobs log_dir figures_dir module_names = Inr out"
    and "i < length out"
  shows "i < length (run_jobs_of jobs) \<and>
         (\<exists>task_info.
            find (\<lambda>t. task_id t = persistent_id (run_jobs_of jobs ! i)) (tasks db)
              = Some task_info \<and>
            task_info \<in> set (tasks db) \<and>
            task_id task_info = persistent_id (run_jobs_of jobs ! i) \<and>
            out_failed (out ! i) = (task_exitcode task_info \<noteq> Some 0) \<and>
            out_submissionId (out ! i) = task_submission_id task_info)"
proof -
  let ?r = "run_jobs_of jobs ! i"
  have len: "i < length (run_jobs_of jobs)"
    and entry: "run_job_output fs db log_dir figures_dir module_names ?r = Inr (out ! i)"
    using get_output_entry [OF assms] by simp_all
  obtain task_info where
    found: "find (\<lambda>t. task_id t = persistent_id ?r) (tasks db) = Some task_info"
    and fields: "out_failed (out ! i) = (task_exitcode task_info \<noteq> Some 0)"
      "out_submissionId (out ! i) = task_submission_id task_info"
    using run_job_output_task [OF entry] by blast
  from find_Some_member [OF found]
  have "task_info \<in> set (tasks db)" "task_id task_info = persistent_id ?r"
    by simp_all
  with len found fields show ?thesis by blast
qed

theorem get_output_failed_and_submission_witness:
  "get_output example_fs example_main_db example_jobs ''/exp/logs'' ''/exp/figs''
     (list_module_names example_pipeline) = Inr example_output
   \<and> 0 < length example_output
   \<and> persistent_id (run_jobs_of example_jobs ! 0) = 12
   \<and> find (\<lambda>t. task_id t = 12) (tasks example_main_db)
       = Some \<lparr>task_id = 12, task_state = ''RUNNING'', task_exitcode = Some 1,
               task_submission_id = 1\<rparr>
   \<and> out_failed (example_output ! 0) = True
   \<and> out_submissionId (example_output ! 0) = 1"
proof -
  have len: "0 < length example_output"
    by (simp add: example_output_def)
  have r: "persistent_id (run_jobs_of example_jobs ! 0) = 12"
    by (simp add: run_jobs_of_def run_jobs_of_subtasks_def example_jobs_def
        example_job_def)
  have t: "find (\<lambda>t. task_id t = 12) (tasks example_main_db)
       = Some \<lparr>task_id = 12, task_state = ''RUNNING'', task_exitcode = Some 1,
               task_submission_id = 1\<rparr>"
    by (simp add: example_main_db_def)
  from get_output_failed_and_submission [OF example_get_output len]
  show ?thesis
    using example_get_output len r t by auto
qed

text \<open>
  C5. The job of the example that is still running: the task table stores no
  exitcode for its persistent id 10, hence no exitcode other than 0, and the
  entry's log is the literal of a job that is still running; yet the entry's
  \<open>failed\<close> is true. Its \<open>submissionId\<close> is the submission id of the task's
  row, as for every entry.
\<close>

theorem get_output_running_job_reported_failed:
  "find (\<lambda>t. task_id t = persistent_id example_running_job) (tasks example_main_db)
     = Some \<lparr>task_id = 10, task_state = ''RUNNING'', task_exitcode = None,
             task_submission_id = 1\<rparr>
   \<and> get_output example_fs example_main_db example_running_jobs ''/exp/logs'' ''/exp/figs''
        (list_module_names example_pipeline)
     = Inr [\<lparr>out_id = 2, out_submissionId = 1, out_name = ''jterator_run_000002'',
             out_log = ''-- Job is still running --'',
             out_modules =
               [\<lparr>mod_name = ''smooth'', mod_stdout = Some ''smooth: other job'',
                  mod_stderr = None\<rparr>,
                \<lparr>mod_name = ''segment'', mod_stdout = None, mod_stderr = None\<rparr>],
             out_failed = True\<rparr>]"
  by code_simp



text \<open>
  C3. In the example directory the stderr file \<open>segment_00001.err\<close> of job 1
  is matched by the pattern, and the part of its basename before the final
  \<open>_<digits>.\<close> group is \<open>segment\<close>; but the dictionary of the stderr
  contents is keyed by the names taken from the stdout files, so the content of
  this file is filed under \<open>smooth\<close> and nothing under \<open>segment\<close>.
\<close>

theorem stderr_file_named_after_stdout_file:
  "glob_star example_fs ''/exp/logs'' (''_'' @ format_5d 1 @ ''.out'')
     = [''/exp/logs/smooth_00001.out'', ''/exp/logs/segment_00001.out'']
   \<and> glob_star example_fs ''/exp/logs'' (''_'' @ format_5d 1 @ ''.err'')
     = [''/exp/logs/segment_00001.err'']
   \<and> collect (map module_of_file
         [''/exp/logs/smooth_00001.out'', ''/exp/logs/segment_00001.out''])
     = Inr [''smooth'', ''segment'']
   \<and> module_of_file ''/exp/logs/segment_00001.err'' = Inr ''segment''
   \<and> (case module_logs example_fs [''smooth'', ''segment'']
              [''/exp/logs/segment_00001.err''] of
         Inl e \<Rightarrow> None
       | Inr module_stderr \<Rightarrow> Some (module_stderr ''smooth'', module_stderr ''segment''))
     = Some (Some ''segment: warning'', None)"
  by code_simp

lemma example_both_get_output:
  "map_sum id (map out_modules)
     (get_output example_fs_both example_main_db example_jobs ''/exp/logs'' ''/exp/figs''
        (list_module_names example_pipeline))
   = Inr [[\<lparr>mod_name = ''smooth'', mod_stdout = Some ''smooth: done'',
             mod_stderr = Some ''segment: warning''\<rparr>,
           \<lparr>mod_name = ''segment'', mod_stdout = Some ''segment: done'',
             mod_stderr = Some ''smooth: warning''\<rparr>]]"
  by code_simp

text \<open>
  C4. In the example the module \<open>smooth\<close> wrote no stderr file and the module
  \<open>segment\<close> wrote one; the entry of \<open>smooth\<close> carries the stderr content of
  \<open>segment\<close>, and the entry of \<open>segment\<close> carries none. Where both modules
  wrote a stderr file and the directory lists the stderr files in the other
  order than the stdout files, each entry carries the stderr content of the
  other module.
\<close>

theorem get_output_stderr_of_other_module:
  "list_module_names example_pipeline = [''smooth'', ''segment'']
   \<and> file_contents example_fs ''/exp/logs/smooth_00001.err'' = None
   \<and> file_contents example_fs ''/exp/logs/segment_00001.err'' = Some ''segment: warning''
   \<and> map_sum id (map out_modules)
        (get_output example_fs example_main_db example_jobs ''/exp/logs'' ''/exp/figs''
           (list_module_names example_pipeline))
     = Inr [[\<lparr>mod_name = ''smooth'', mod_stdout = Some ''smooth: done'',
               mod_stderr = Some ''segment: warning''\<rparr>,
             \<lparr>mod_name = ''segment'', mod_stdout = Some ''segment: done'',
               mod_stderr = None\<rparr>]]
   \<and> file_contents example_fs_both ''/exp/logs/smooth_00001.err'' = Some ''smooth: warning''
   \<and> file_contents example_fs_both ''/exp/logs/segment_00001.err'' = Some ''segment: warning''
   \<and> map_sum id (map out_modules)
        (get_output example_fs_both example_main_db example_jobs ''/exp/logs'' ''/exp/figs''
           (list_module_names example_pipeline))
     = Inr [[\<lparr>mod_name = ''smooth'', mod_stdout = Some ''smooth: done'',
               mod_stderr = Some ''segment: warning''\<rparr>,
             \<lparr>mod_name = ''segment'', mod_stdout = Some ''segment: done'',
               mod_stderr = Some ''smooth: warning''\<rparr>]]"
proof -
  have names: "list_module_names example_pipeline = [''smooth'', ''segment'']"
    by code_simp
  have files: "file_contents example_fs ''/exp/logs/smooth_00001.err'' = None"
    "file_contents example_fs ''/exp/logs/segment_00001.err'' = Some ''segment: warning''"
    by (simp_all add: example_fs_def)
  have modules: "map_sum id (map out_modules)
        (get_output example_fs example_main_db example_jobs ''/exp/logs'' ''/exp/figs''
           (list_module_names example_pipeline))
     = Inr [[\<lparr>mod_name = ''smooth'', mod_stdout = Some ''smooth: done'',
               mod_stderr = Some ''segment: warning''\<rparr>,
             \<lparr>mod_name = ''segment'', mod_stdout = Some ''segment: done'',
               mod_stderr = None\<rparr>]]"
    unfolding example_get_output by (simp add: example_output_def)
  have files_both:
    "file_contents example_fs_both ''/exp/logs/smooth_00001.err'' = Some ''smooth: warning''"
    "file_contents example_fs_both ''/exp/logs/segment_00001.err'' = Some ''segment: warning''"
    by (simp_all add: example_fs_both_def)
  from names files modules files_both example_both_get_output show ?thesis by blast
qed

section \<open>get\_available\_jtpipelines and create\_joblist\<close>

text \<open>
  C9, as stated, fails: with \<open>JTUI_REPO_DIR_LOCATION\<close> not set the handler
  raises while it computes the list that it would discard, and returns no list.
\<close>

theorem get_available_jtpipelines_unset_repo_dir:
  "get_available_jtpipelines None example_list_projects = Inl (AttributeError ''endswith'')"
  by (simp add: get_available_jtpipelines_def)

text \<open>
  C9, amended. Whenever the \<open>pipes\<close> directory of the repository can be listed
  (\<open>JTUI_REPO_DIR_LOCATION\<close> is set and \<open>list_projects\<close> returns),
  \<open>get_available_jtpipelines\<close> returns the empty list, whatever the listing
  holds; and no configuration and no listing make it return a list that is not
  empty.
\<close>

theorem get_available_jtpipelines_empty:
  "(repo_dir = Some location \<and> list_projects (path_join location ''pipes'') = Inr projects
      \<longrightarrow> get_available_jtpipelines repo_dir list_projects = Inr [])
   \<and> get_available_jtpipelines repo_dir list_projects \<noteq> Inr (p # ps)"
  by (auto simp: get_available_jtpipelines_def Let_def split: option.splits sum.splits)

theorem get_available_jtpipelines_empty_witness:
  "path_join ''/repo'' ''pipes'' = ''/repo/pipes''
   \<and> example_list_projects ''/repo/pipes''
       = Inr [''/repo/pipes/jterator_a'', ''/repo/pipes/jterator_b'']
   \<and> get_available_jtpipelines (Some ''/repo'') example_list_projects = Inr []"
  using get_available_jtpipelines_empty
    [where repo_dir = "Some ''/repo''" and location = "''/repo''"
       and list_projects = example_list_projects
       and projects = "[''/repo/pipes/jterator_a'', ''/repo/pipes/jterator_b'']"]
  by (simp add: path_join_def example_list_projects_def)

lemma pipeline_not_bound:
  "api_module ''pipeline'' = None"
  by (simp add: api_module_def api_globals_def)

text \<open>
  C2. Nothing binds the name \<open>pipeline\<close> in \<open>jtui/api.py\<close>: for a request with a
  jtproject payload that holds an \<open>experiment_id\<close>, \<open>create_joblist\<close> raises
  \<open>NameError\<close> before it builds a batch, whatever the batches and the image
  files are; it returns neither a joblist nor the null joblist with an error
  message.
\<close>

theorem create_joblist_name_error:
  "create_joblist api_module create_batches query_channel_images
     (Some [''experiment_id'' \<mapsto> 1, ''name'' \<mapsto> 0])
   = Inl (NameError ''pipeline'')"
  by (simp add: create_joblist_def read_global_def pipeline_not_bound)

section \<open>The patterns of \_get\_output\<close>

lemma not_digit [simp]:
  "\<not> is_digit CHR ''_''" "\<not> is_digit CHR ''.''" "\<not> is_digit newline"
  by (simp_all add: is_digit_def)

lemma digit_char:
  "k < 10 \<Longrightarrow> is_digit (''0123456789'' ! k)"
  unfolding is_digit_def by (rule nth_mem) simp

lemma digit_value_char:
  assumes "k < 10"
  shows "digit_value (''0123456789'' ! k) = k"
proof -
  from assms have "k \<in> {0, 1, 2, 3, 4, 5, 6, 7, 8, 9}" by auto
  then show ?thesis by (auto simp: digit_value_def)
qed

lemma str_nat_digits:
  "list_all is_digit (str_nat n) \<and> str_nat n \<noteq> []"
proof (induction n rule: str_nat.induct)
  case (1 n)
  show ?case
  proof (cases "n < 10")
    case True
    then show ?thesis by (simp add: str_nat.simps [of n] digit_char)
  next
    case False
    with 1 show ?thesis by (simp add: str_nat.simps [of n] digit_char)
  qed
qed

lemma py_int_snoc:
  "py_int (s @ [c]) = 10 * py_int s + digit_value c"
  by (simp add: py_int_def)

lemma py_int_str_nat:
  "py_int (str_nat n) = n"
proof (induction n rule: str_nat.induct)
  case (1 n)
  show ?case
  proof (cases "n < 10")
    case True
    then show ?thesis
      by (simp add: str_nat.simps [of n] py_int_def digit_value_char)
  next
    case False
    with 1 have "py_int (str_nat (n div 10)) = n div 10" by simp
    with False show ?thesis
      by (simp add: str_nat.simps [of n] py_int_snoc digit_value_char)
  qed
qed

lemma py_int_zeros:
  "py_int (replicate k CHR ''0'' @ s) = py_int s"
proof -
  have "foldl (\<lambda>a c. 10 * a + digit_value c) 0 (replicate k CHR ''0'') = 0"
    by (induction k) (simp_all add: digit_value_def)
  then show ?thesis by (simp add: py_int_def)
qed

lemma format_5d_digits:
  "list_all is_digit (format_5d j)" "format_5d j \<noteq> []" "py_int (format_5d j) = j"
proof -
  have "is_digit CHR ''0''" by (simp add: is_digit_def)
  then show "list_all is_digit (format_5d j)"
    using str_nat_digits [of j] by (auto simp: format_5d_def list_all_iff)
  show "format_5d j \<noteq> []"
    using str_nat_digits [of j] by (simp add: format_5d_def)
  show "py_int (format_5d j) = j"
    by (simp add: format_5d_def py_int_zeros py_int_str_nat)
qed

lemma takeWhile_all:
  "list_all P xs \<Longrightarrow> takeWhile P (xs @ ys) = xs @ takeWhile P ys"
  by (induction xs) simp_all

lemma dropWhile_all:
  "list_all P xs \<Longrightarrow> dropWhile P (xs @ ys) = dropWhile P ys"
  by (induction xs) simp_all

lemma dropWhile_keeps_tail:
  "\<not> P x \<Longrightarrow> \<exists>r. dropWhile P (q @ x # ys) = r @ x # ys"
proof (induction q)
  case Nil
  then show ?case by simp
next
  case (Cons c q)
  then show ?case by (cases "P c") (auto intro: exI [of _ "c # q"])
qed

lemma takeWhile_whole:
  "list_all P xs \<Longrightarrow> takeWhile P xs = xs \<and> dropWhile P xs = []"
  by (induction xs) simp_all

lemma digits_to_end_digits:
  "ds \<noteq> [] \<Longrightarrow> list_all is_digit ds \<Longrightarrow> digits_to_end ds"
  by (simp add: digits_to_end_def takeWhile_whole)

lemma digits_to_end_before_underscore:
  assumes "ds \<noteq> []"
  shows "\<not> digits_to_end (q @ CHR ''_'' # ds)"
proof -
  obtain r where "dropWhile is_digit (q @ CHR ''_'' # ds) = r @ CHR ''_'' # ds"
    using dropWhile_keeps_tail [of is_digit "CHR ''_''" q ds] by auto
  with assms show ?thesis
    by (cases r) (auto simp: digits_to_end_def)
qed

text \<open>
  A job name that ends in an underscore and digits has the number these digits
  write as its index, whatever stands before.
\<close>

lemma search_job_index_suffix:
  assumes "ds \<noteq> []" and "list_all is_digit ds"
  shows "search_job_index (p @ CHR ''_'' # ds) = Some ds"
proof (induction p)
  case Nil
  from assms show ?case
    by (simp add: digits_to_end_digits takeWhile_whole)
next
  case (Cons c p)
  then show ?case
    using digits_to_end_before_underscore [OF assms(1), of p] by simp
qed

lemma job_index_suffix:
  assumes "ds \<noteq> []" and "list_all is_digit ds"
  shows "job_index (p @ ''_'' @ ds) = Inr (py_int ds)"
  using search_job_index_suffix [OF assms, of p] by (simp add: job_index_def)

lemma find_last_index:
  assumes "P k" and "k \<le> n" and "\<And>i. k < i \<Longrightarrow> i \<le> n \<Longrightarrow> \<not> P i"
  shows "find P (rev [0..<Suc n]) = Some k"
  using assms
proof (induction n)
  case 0
  then show ?case by simp
next
  case (Suc n)
  show ?case
  proof (cases "k = Suc n")
    case True
    with Suc.prems(1) show ?thesis by simp
  next
    case False
    with Suc.prems have "k \<le> n" "\<not> P (Suc n)" by auto
    moreover from this Suc have "find P (rev [0..<Suc n]) = Some k" by simp
    ultimately show ?thesis by simp
  qed
qed

lemma underscore_digits_dot_here:
  "ds \<noteq> [] \<Longrightarrow> list_all is_digit ds \<Longrightarrow>
     underscore_digits_dot (CHR ''_'' # ds @ CHR ''.'' # ext)"
  using takeWhile_all [of is_digit ds "CHR ''.'' # ext"]
    dropWhile_all [of is_digit ds "CHR ''.'' # ext"]
  by (simp add: underscore_digits_dot_def)

lemma underscore_digits_dot_needs_underscore:
  "underscore_digits_dot s \<Longrightarrow> s \<noteq> [] \<and> hd s = CHR ''_''"
  by (cases s) (simp_all add: underscore_digits_dot_def)

text \<open>
  For a name made of a module name, an underscore, digits, a dot and an extension
  without an underscore, group 1 of the module pattern is the module name,
  provided the module name holds no newline.
\<close>

lemma match_module_name_suffix:
  assumes "ds \<noteq> []" and "list_all is_digit ds"
    and "CHR ''_'' \<notin> set ext" and "newline \<notin> set m"
  shows "match_module_name (m @ ''_'' @ ds @ ''.'' @ ext) = Some m"
proof -
  let ?s = "m @ CHR ''_'' # ds @ CHR ''.'' # ext"
  let ?n = "length (takeWhile (\<lambda>c. c \<noteq> newline) ?s)"
  have here: "underscore_digits_dot (drop (length m) ?s)"
    using underscore_digits_dot_here [OF assms(1,2)] by simp
  have "takeWhile (\<lambda>c. c \<noteq> newline) ?s
      = m @ takeWhile (\<lambda>c. c \<noteq> newline) (CHR ''_'' # ds @ CHR ''.'' # ext)"
    using assms(4) by (intro takeWhile_all) (auto simp: list_all_iff)
  then have bound: "length m \<le> ?n" by simp
  have later: "\<not> underscore_digits_dot (drop i ?s)" if "length m < i" for i
  proof
    assume u: "underscore_digits_dot (drop i ?s)"
    from that obtain d where i: "i = length m + Suc d"
      by (metis less_imp_Suc_add add_Suc_right)
    have rest: "drop i ?s = drop d (ds @ CHR ''.'' # ext)"
      by (simp add: i)
    from u have "underscore_digits_dot (drop d (ds @ CHR ''.'' # ext))"
      by (simp only: rest)
    from underscore_digits_dot_needs_underscore [OF this]
    have ne: "drop d (ds @ CHR ''.'' # ext) \<noteq> []"
      and h: "hd (drop d (ds @ CHR ''.'' # ext)) = CHR ''_''"
      by blast+
    from ne have "hd (drop d (ds @ CHR ''.'' # ext)) \<in> set (ds @ CHR ''.'' # ext)"
      by (metis hd_in_set in_set_dropD)
    with h have "CHR ''_'' \<in> set ds \<or> CHR ''_'' \<in> set ext" by auto
    with assms(2,3) show False
      by (auto simp: list_all_iff)
  qed
  have "find (\<lambda>k. underscore_digits_dot (drop k ?s)) (rev [0..<Suc ?n]) = Some (length m)"
    using here bound later by (intro find_last_index) auto
  then show ?thesis
    by (simp add: match_module_name_def Let_def)
qed

lemma ends_with_iff:
  "ends_with s tail = (\<exists>m. s = m @ tail)"
proof
  assume "ends_with s tail"
  then have "s = take (length s - length tail) s @ tail"
    by (metis append_take_drop_id ends_with_def)
  then show "\<exists>m. s = m @ tail" ..
next
  assume "\<exists>m. s = m @ tail"
  then show "ends_with s tail" by (auto simp: ends_with_def)
qed

lemma basename_path_join:
  assumes "CHR ''/'' \<notin> set n"
  shows "basename (path_join dir n) = n"
proof -
  from assms have n: "takeWhile (\<lambda>c. c \<noteq> CHR ''/'') (rev n @ r) =
      rev n @ takeWhile (\<lambda>c. c \<noteq> CHR ''/'') r" for r
    by (intro takeWhile_all) (auto simp: list_all_iff)
  from assms have hd: "n \<noteq> [] \<Longrightarrow> hd n \<noteq> CHR ''/''"
    by (cases n) auto
  show ?thesis
  proof (cases "dir = [] \<or> last dir = CHR ''/''")
    case True
    then have "path_join dir n = dir @ n"
      using hd by (auto simp: path_join_def)
    moreover have "takeWhile (\<lambda>c. c \<noteq> CHR ''/'') (rev dir) = []"
      using True by (cases dir rule: rev_cases) auto
    ultimately show ?thesis by (simp add: basename_def n)
  next
    case False
    then have "path_join dir n = dir @ ''/'' @ n"
      using hd by (auto simp: path_join_def)
    then show ?thesis by (simp add: basename_def n)
  qed
qed

text \<open>
  The files the pattern of a job selects are the entries of the directory that
  are not hidden and end with the job's tail; each stdout and figure file whose
  name holds no newline gets as module name its name without that tail.
\<close>

lemma set_glob_star:
  "set (glob_star fs dir tail) =
     path_join dir ` {n \<in> set (dir_entries fs dir). \<not> is_hidden n \<and> (\<exists>m. n = m @ tail)}"
  by (auto simp: glob_star_def ends_with_iff)

lemma module_of_file_glob:
  assumes "ext \<in> {''out'', ''err'', ''json''}"
    and "CHR ''/'' \<notin> set m" and "newline \<notin> set m"
  shows "module_of_file (path_join dir (m @ ''_'' @ format_5d j @ ''.'' @ ext)) = Inr m"
proof -
  from assms(1) have ext: "CHR ''_'' \<notin> set ext" "CHR ''/'' \<notin> set ext" by auto
  have "CHR ''/'' \<notin> set (format_5d j)"
    using format_5d_digits(1) [of j] by (auto simp: list_all_iff is_digit_def)
  with assms(2) ext have "CHR ''/'' \<notin> set (m @ ''_'' @ format_5d j @ ''.'' @ ext)"
    by simp
  then have "basename (path_join dir (m @ ''_'' @ format_5d j @ ''.'' @ ext))
      = m @ ''_'' @ format_5d j @ ''.'' @ ext"
    by (rule basename_path_join)
  then show ?thesis
    using match_module_name_suffix [OF format_5d_digits(2,1) ext(1) assms(3), of j]
    by (simp add: module_of_file_def)
qed

section \<open>\_get\_output: when it returns\<close>

lemma collect_map_Inr:
  assumes "\<And>x. x \<in> set xs \<Longrightarrow> \<exists>y. f x = Inr y"
  shows "\<exists>ys. collect (map f xs) = Inr ys \<and> length ys = length xs"
  using assms
proof (induction xs)
  case Nil
  then show ?case by simp
next
  case (Cons x xs)
  then obtain y ys where "f x = Inr y" "collect (map f xs) = Inr ys" "length ys = length xs"
    by (metis list.set_intros(1,2))
  then show ?case by simp
qed

text \<open>
  The body of the loop returns an entry for a job whose name carries an index,
  once every file the job's patterns select has a name of the module pattern
  and can be read, and the task table holds the job's row.
\<close>

lemma run_job_output_returns:
  assumes "job_index (jobname r) = Inr j"
    and "\<And>f. f \<in> set (glob_star fs log_dir (''_'' @ format_5d j @ ''.out''))
           \<Longrightarrow> match_module_name (basename f) \<noteq> None \<and> file_contents fs f \<noteq> None"
    and "\<And>f. f \<in> set (glob_star fs log_dir (''_'' @ format_5d j @ ''.err''))
           \<Longrightarrow> file_contents fs f \<noteq> None"
    and "\<And>f. f \<in> set (glob_star fs figures_dir (''_'' @ format_5d j @ ''.json''))
           \<Longrightarrow> match_module_name (basename f) \<noteq> None"
    and "find (\<lambda>t. task_id t = persistent_id r) (tasks db) \<noteq> None"
  shows "\<exists>e. run_job_output fs db log_dir figures_dir module_names r = Inr e"
proof -
  have name: "match_module_name (basename f) \<noteq> None \<Longrightarrow> \<exists>m. module_of_file f = Inr m" for f
    by (auto simp: module_of_file_def)
  have read: "file_contents fs f \<noteq> None \<Longrightarrow> \<exists>c. read_file fs f = Inr c" for f
    by (auto simp: read_file_def)
  obtain module_file where mf:
    "collect (map module_of_file (glob_star fs log_dir (''_'' @ format_5d j @ ''.out'')))
       = Inr module_file"
    using collect_map_Inr [of _ module_of_file] assms(2) name by meson
  obtain out_texts where ot:
    "collect (map (read_file fs) (glob_star fs log_dir (''_'' @ format_5d j @ ''.out'')))
       = Inr out_texts"
    using collect_map_Inr [of _ "read_file fs"] assms(2) read by meson
  obtain err_texts where et:
    "collect (map (read_file fs) (glob_star fs log_dir (''_'' @ format_5d j @ ''.err'')))
       = Inr err_texts"
    using collect_map_Inr [of _ "read_file fs"] assms(3) read by meson
  obtain fig_names where fn:
    "collect (map module_of_file (glob_star fs figures_dir (''_'' @ format_5d j @ ''.json'')))
       = Inr fig_names"
    using collect_map_Inr [of _ module_of_file] assms(4) name by meson
  obtain task_info where ti:
    "find (\<lambda>t. task_id t = persistent_id r) (tasks db) = Some task_info"
    using assms(5) by auto
  show ?thesis
    by (simp add: run_job_output_def assms(1) Let_def mf module_logs_def ot et fn ti
        del: append.simps)
qed

lemma get_output_returns:
  assumes "\<And>r. r \<in> set (run_jobs_of jobs) \<Longrightarrow>
             \<exists>e. run_job_output fs db log_dir figures_dir module_names r = Inr e"
  shows "\<exists>out. get_output fs db jobs log_dir figures_dir module_names = Inr out \<and>
               length out = length (run_jobs_of jobs)"
  unfolding get_output_collect using assms by (rule collect_map_Inr)

section \<open>\_get\_output: the stdout dictionary\<close>

lemma map_of_rev_distinct:
  "distinct (map fst xs) \<Longrightarrow> map_of (rev xs) = map_of xs"
proof (induction xs)
  case Nil
  then show ?case by simp
next
  case (Cons x xs)
  then have ih: "map_of (rev xs) = map_of xs"
    and new: "map_of xs (fst x) = None"
    by (simp_all add: map_of_eq_None_iff)
  show ?case
  proof
    fix k
    show "map_of (rev (x # xs)) k = map_of (x # xs) k"
      using new by (cases x) (auto simp: ih map_add_def split: option.splits)
  qed
qed

text \<open>
  Where the names and the contents come from the same list of files (as for
  stdout) and the names differ, each name is paired with the content of its own
  file.
\<close>

lemma module_logs_same_files:
  assumes "collect (map module_of_file files) = Inr module_file"
    and "module_logs fs module_file files = Inr logs"
    and "distinct module_file" and "i < length files"
  shows "module_of_file (files ! i) = Inr (module_file ! i) \<and>
         read_file fs (files ! i) = Inr (the (logs (module_file ! i)))"
proof -
  from assms(2) obtain texts where texts: "collect (map (read_file fs) files) = Inr texts"
    and logs: "logs = py_dict (zip module_file texts)"
    by (auto simp: module_logs_def split: sum.splits)
  from collect_Inr_nth [OF assms(1)] assms(4)
  have len1: "length module_file = length files"
    and n1: "module_of_file (files ! i) = Inr (module_file ! i)"
    by simp_all
  from collect_Inr_nth [OF texts] assms(4)
  have len2: "length texts = length files"
    and n2: "read_file fs (files ! i) = Inr (texts ! i)"
    by simp_all
  have "distinct (map fst (zip module_file texts))"
    using assms(3) len1 len2 by (simp add: map_fst_zip)
  then have "logs = map_of (zip module_file texts)"
    unfolding logs py_dict_def by (rule map_of_rev_distinct)
  then have "logs (module_file ! i) = Some (texts ! i)"
    using map_of_zip_nth [of module_file texts i] assms(3,4) len1 len2 by simp
  with n1 n2 show ?thesis by simp
qed

section \<open>upload.py: registering an upload\<close>

lemma get_acquisition_id:
  "get_acquisition db acquisition_id = Some acquisition \<Longrightarrow> acq_id acquisition = acquisition_id"
  unfolding get_acquisition_def by (induction "acquisitions db") (auto split: if_splits dest: find_Some_member)

lemma set_files_of_names:
  "set (map file_name (files_of acquisition_id table)) =
     {file_name r | r. r \<in> set table \<and> file_acquisition_id r = acquisition_id}"
  by (auto simp: files_of_def)

lemma register_upload_nonempty:
  assumes "get_acquisition db acquisition_id = Some acquisition" and "files \<noteq> []"
  shows "register_upload imgfile_regex metadata_regex secure_filename db acquisition_id (Some files) =
     (Inr ''ok'',
      db\<lparr>microscope_image_files := microscope_image_files db @
            map (\<lambda>f. new_microscope_file (secure_filename f) acquisition_id)
              (filter (\<lambda>f. imgfile_regex f \<and>
                     secure_filename f \<notin> set (map file_name
                        (files_of acquisition_id (microscope_image_files db)))) files),
         microscope_metadata_files := microscope_metadata_files db @
            map (\<lambda>f. new_microscope_file (secure_filename f) acquisition_id)
              (filter (\<lambda>f. metadata_regex f \<and>
                     secure_filename f \<notin> set (map file_name
                        (files_of acquisition_id (microscope_metadata_files db)))) files)\<rparr>)"
  using assms get_acquisition_id [OF assms(1)]
  by (simp add: register_upload_def Let_def)

lemma no_record_for_registered_name:
  assumes "n \<in> registered"
  shows "filter (\<lambda>r. file_name r = n \<and> file_acquisition_id r = a)
           (map (\<lambda>f. new_microscope_file (sf f) a)
              (filter (\<lambda>f. P f \<and> sf f \<notin> registered) files)) = []"
  using assms by (induction files) (auto simp: new_microscope_file_def)

text \<open>
  C8. For a request with a non-empty list \<open>files\<close> (and an acquisition that
  exists), \<open>register_upload\<close> adds to the image table one record for each
  submitted name that matches the image expression and whose sanitized name is
  not among the names the acquisition has registered as images, and nothing
  else; likewise for the metadata table; a name that was registered keeps
  exactly the records it had. With an empty (or missing) list it raises
  \<open>MalformedRequestError\<close> and leaves the database as it was.
\<close>

theorem register_upload_creates_records:
  assumes "get_acquisition db acquisition_id = Some acquisition"
    and "files \<noteq> []"
    and "db' = snd (register_upload imgfile_regex metadata_regex secure_filename db
                      acquisition_id (Some files))"
    and "img_registered = {file_name r | r. r \<in> set (microscope_image_files db) \<and>
                              file_acquisition_id r = acquisition_id}"
    and "meta_registered = {file_name r | r. r \<in> set (microscope_metadata_files db) \<and>
                              file_acquisition_id r = acquisition_id}"
  shows "fst (register_upload imgfile_regex metadata_regex secure_filename db
                acquisition_id (Some files)) = Inr ''ok''
    \<and> microscope_image_files db' = microscope_image_files db @
         map (\<lambda>f. \<lparr>file_name = secure_filename f, file_acquisition_id = acquisition_id,
                    file_status = WAITING\<rparr>)
           (filter (\<lambda>f. imgfile_regex f \<and> secure_filename f \<notin> img_registered) files)
    \<and> microscope_metadata_files db' = microscope_metadata_files db @
         map (\<lambda>f. \<lparr>file_name = secure_filename f, file_acquisition_id = acquisition_id,
                    file_status = WAITING\<rparr>)
           (filter (\<lambda>f. metadata_regex f \<and> secure_filename f \<notin> meta_registered) files)
    \<and> acquisitions db' = acquisitions db
    \<and> (\<forall>n \<in> img_registered.
          filter (\<lambda>r. file_name r = n \<and> file_acquisition_id r = acquisition_id)
            (microscope_image_files db')
          = filter (\<lambda>r. file_name r = n \<and> file_acquisition_id r = acquisition_id)
              (microscope_image_files db))
    \<and> (\<forall>n \<in> meta_registered.
          filter (\<lambda>r. file_name r = n \<and> file_acquisition_id r = acquisition_id)
            (microscope_metadata_files db')
          = filter (\<lambda>r. file_name r = n \<and> file_acquisition_id r = acquisition_id)
              (microscope_metadata_files db))
    \<and> register_upload imgfile_regex metadata_regex secure_filename db acquisition_id (Some [])
        = (Inl (MalformedRequestError ''No files supplied. Cannot register upload.''), db)
    \<and> register_upload imgfile_regex metadata_regex secure_filename db acquisition_id None
        = (Inl (MalformedRequestError ''No files supplied. Cannot register upload.''), db)"
proof -
  note run = register_upload_nonempty [OF assms(1,2), of imgfile_regex metadata_regex secure_filename]
  have img_set: "set (map file_name (files_of acquisition_id (microscope_image_files db)))
      = img_registered"
    unfolding assms(4) by (rule set_files_of_names)
  have meta_set: "set (map file_name (files_of acquisition_id (microscope_metadata_files db)))
      = meta_registered"
    unfolding assms(5) by (rule set_files_of_names)
  have ok: "fst (register_upload imgfile_regex metadata_regex secure_filename db
                acquisition_id (Some files)) = Inr ''ok''"
    by (simp add: run)
  have img: "microscope_image_files db' = microscope_image_files db @
         map (\<lambda>f. new_microscope_file (secure_filename f) acquisition_id)
           (filter (\<lambda>f. imgfile_regex f \<and> secure_filename f \<notin> img_registered) files)"
    unfolding assms(3) run img_set by simp
  have meta: "microscope_metadata_files db' = microscope_metadata_files db @
         map (\<lambda>f. new_microscope_file (secure_filename f) acquisition_id)
           (filter (\<lambda>f. metadata_regex f \<and> secure_filename f \<notin> meta_registered) files)"
    unfolding assms(3) run meta_set by simp
  have acq: "acquisitions db' = acquisitions db"
    unfolding assms(3) run by simp
  have keep_img: "\<forall>n \<in> img_registered.
          filter (\<lambda>r. file_name r = n \<and> file_acquisition_id r = acquisition_id)
            (microscope_image_files db')
          = filter (\<lambda>r. file_name r = n \<and> file_acquisition_id r = acquisition_id)
              (microscope_image_files db)"
    unfolding img by (simp add: no_record_for_registered_name)
  have keep_meta: "\<forall>n \<in> meta_registered.
          filter (\<lambda>r. file_name r = n \<and> file_acquisition_id r = acquisition_id)
            (microscope_metadata_files db')
          = filter (\<lambda>r. file_name r = n \<and> file_acquisition_id r = acquisition_id)
              (microscope_metadata_files db)"
    unfolding meta by (simp add: no_record_for_registered_name)
  have empty: "register_upload imgfile_regex metadata_regex secure_filename db acquisition_id (Some [])
        = (Inl (MalformedRequestError ''No files supplied. Cannot register upload.''), db)"
    "register_upload imgfile_regex metadata_regex secure_filename db acquisition_id None
        = (Inl (MalformedRequestError ''No files supplied. Cannot register upload.''), db)"
    by (simp_all add: register_upload_def)
  from ok img meta acq keep_img keep_meta empty show ?thesis
    by (simp add: new_microscope_file_def)
qed

theorem register_upload_creates_records_witness:
  "get_acquisition example_experiment_db 7 = Some \<lparr>acq_id = 7, acq_status = WAITING\<rparr>
   \<and> register_upload example_imgfile_regex example_metadata_regex example_secure_filename
        example_experiment_db 7 (Some [''a.png'', ''b c.png'', ''notes.txt'', ''m.xml''])
     = (Inr ''ok'',
        example_experiment_db
          \<lparr>microscope_image_files := microscope_image_files example_experiment_db @
              [\<lparr>file_name = ''b_c.png'', file_acquisition_id = 7, file_status = WAITING\<rparr>],
           microscope_metadata_files := microscope_metadata_files example_experiment_db @
              [\<lparr>file_name = ''m.xml'', file_acquisition_id = 7, file_status = WAITING\<rparr>]\<rparr>)
   \<and> filter (\<lambda>r. file_name r = ''a.png'' \<and> file_acquisition_id r = 7)
        (microscope_image_files (snd (register_upload example_imgfile_regex
           example_metadata_regex example_secure_filename example_experiment_db 7
           (Some [''a.png'', ''b c.png'', ''notes.txt'', ''m.xml'']))))
     = [\<lparr>file_name = ''a.png'', file_acquisition_id = 7, file_status = WAITING\<rparr>]"
proof -
  have acq: "get_acquisition example_experiment_db 7 = Some \<lparr>acq_id = 7, acq_status = WAITING\<rparr>"
    by (simp add: get_acquisition_def example_experiment_db_def)
  have ne: "[''a.png'', ''b c.png'', ''notes.txt'', ''m.xml''] \<noteq> []"
    by simp
  have run: "register_upload example_imgfile_regex example_metadata_regex example_secure_filename
        example_experiment_db 7 (Some [''a.png'', ''b c.png'', ''notes.txt'', ''m.xml''])
     = (Inr ''ok'',
        example_experiment_db
          \<lparr>microscope_image_files := microscope_image_files example_experiment_db @
              [\<lparr>file_name = ''b_c.png'', file_acquisition_id = 7, file_status = WAITING\<rparr>],
           microscope_metadata_files := microscope_metadata_files example_experiment_db @
              [\<lparr>file_name = ''m.xml'', file_acquisition_id = 7, file_status = WAITING\<rparr>]\<rparr>)"
    by code_simp
  have reg: "''a.png'' \<in> {file_name r | r. r \<in> set (microscope_image_files example_experiment_db) \<and>
                              file_acquisition_id r = 7}"
    by (simp add: example_experiment_db_def) (rule exI [of _ "\<lparr>file_name = ''a.png'', file_acquisition_id = 7, file_status = WAITING\<rparr>"], simp)
  have old: "filter (\<lambda>r. file_name r = ''a.png'' \<and> file_acquisition_id r = 7)
        (microscope_image_files example_experiment_db)
     = [\<lparr>file_name = ''a.png'', file_acquisition_id = 7, file_status = WAITING\<rparr>]"
    by (simp add: example_experiment_db_def)
  from register_upload_creates_records [OF acq ne refl refl refl,
      of example_imgfile_regex example_metadata_regex example_secure_filename]
  have "\<forall>n \<in> {file_name r | r. r \<in> set (microscope_image_files example_experiment_db) \<and>
                              file_acquisition_id r = 7}.
          filter (\<lambda>r. file_name r = n \<and> file_acquisition_id r = 7)
            (microscope_image_files (snd (register_upload example_imgfile_regex
               example_metadata_regex example_secure_filename example_experiment_db 7
               (Some [''a.png'', ''b c.png'', ''notes.txt'', ''m.xml'']))))
          = filter (\<lambda>r. file_name r = n \<and> file_acquisition_id r = 7)
              (microscope_image_files example_experiment_db)"
    by blast
  from bspec [OF this reg] old acq run show ?thesis
    by simp
qed

section \<open>upload.py: which record an upload goes to\<close>







section \<open>result.py: what the constructors check and establish\<close>

lemma LabelLayer_init_attributes:
  "layer_attributes (fst (LabelLayer_init class_name db mapobject_type_id labels attrs)) = attrs"
  by (simp add: LabelLayer_init_def Let_def)

text \<open>
  C7, as stated, fails: \<open>HeatmapLabelLayer\<close> rejects attributes without the key
  \<open>feature_id\<close>, and \<open>ScalarLabelLayer\<close> stores the distinct values of its
  labels in the attributes although the caller gave no attributes.
\<close>

theorem constructors_enforce_attributes:
  "HeatmapLabelLayer_init ''HeatmapLabelLayer'' empty_tool_db 3 Map.empty
     = Inl (ValueError (''Heatmap tool requires '' @ quoted ''feature_id'' @ '' attribute.''))
   \<and> map_sum id (\<lambda>r. layer_attributes (fst r) ''unique_labels'')
        (ScalarLabelLayer_init ''ScalarLabelLayer'' empty_tool_db 3 example_labels Map.empty)
     = Inr (Some (JList [JStr ''a'', JNum 5]))"
  by (simp add: HeatmapLabelLayer_init_def ScalarLabelLayer_init_def example_labels_def
      LabelLayer_init_attributes)

text \<open>
  C7, amended. \<open>LabelLayer\<close>, \<open>ContinuousLabelLayer\<close> and \<open>Plot\<close> store the
  attributes they are given, whatever they are, and \<open>Result\<close> only links its
  layer and plots to the new result. \<open>HeatmapLabelLayer\<close> raises \<open>ValueError\<close>
  exactly when the attributes lack the key \<open>feature_id\<close>, so a stored heatmap
  layer has it. A stored \<open>ScalarLabelLayer\<close> holds under \<open>unique_labels\<close> the
  values of its labels, each once, besides the attributes given; a stored
  \<open>SupervisedClassifierLabelLayer\<close> holds the colour map under \<open>color_map\<close> as
  well.
\<close>

theorem constructors_stored_attributes:
  "layer_attributes (fst (LabelLayer_init c db mt labels attrs)) = attrs
   \<and> layer_attributes (fst (ContinuousLabelLayer_init c db mt labels attrs)) = attrs
   \<and> plot_attributes (Plot_init attrs) = attrs
   \<and> label_layer_labels (snd (Result_init db session layer name new_plots)) = label_layer_labels db
   \<and> map layer_attributes (label_layers (snd (Result_init db session layer name new_plots)))
       = map layer_attributes (label_layers db)
   \<and> map plot_attributes (plots (snd (Result_init db session layer name new_plots)))
       = map plot_attributes (plots db @ new_plots)
   \<and> ((\<exists>msg. HeatmapLabelLayer_init c db mt attrs = Inl (ValueError msg))
        = (attrs ''feature_id'' = None))
   \<and> (HeatmapLabelLayer_init c db mt attrs = Inr (l, db') \<longrightarrow>
        layer_attributes l = attrs \<and> attrs ''feature_id'' \<noteq> None)
   \<and> (ScalarLabelLayer_init c db mt labels attrs = Inr (l, db') \<longrightarrow>
        (\<exists>unique_labels.
           layer_attributes l = attrs(''unique_labels'' \<mapsto> JList unique_labels) \<and>
           set unique_labels = snd ` set labels \<and> distinct unique_labels))
   \<and> (SupervisedClassifierLabelLayer_init c db mt labels color_map attrs = Inr (l, db') \<longrightarrow>
        (\<exists>unique_labels.
           layer_attributes l =
             attrs(''color_map'' \<mapsto> color_map, ''unique_labels'' \<mapsto> JList unique_labels) \<and>
           set unique_labels = snd ` set labels \<and> distinct unique_labels))"
proof -
  have base: "layer_attributes (fst (LabelLayer_init c db mt labels attrs)) = attrs"
    "layer_attributes (fst (ContinuousLabelLayer_init c db mt labels attrs)) = attrs"
    "plot_attributes (Plot_init attrs) = attrs"
    by (simp_all add: LabelLayer_init_attributes ContinuousLabelLayer_init_def Plot_init_def)
  have res: "label_layer_labels (snd (Result_init db session layer name new_plots))
        = label_layer_labels db"
    "map layer_attributes (label_layers (snd (Result_init db session layer name new_plots)))
       = map layer_attributes (label_layers db)"
    "map plot_attributes (plots (snd (Result_init db session layer name new_plots)))
       = map plot_attributes (plots db @ new_plots)"
    by (simp_all add: Result_init_def Let_def comp_def)
  have heat: "(\<exists>msg. HeatmapLabelLayer_init c db mt attrs = Inl (ValueError msg))
        = (attrs ''feature_id'' = None)"
    "HeatmapLabelLayer_init c db mt attrs = Inr (l, db') \<longrightarrow>
        layer_attributes l = attrs \<and> attrs ''feature_id'' \<noteq> None"
    using LabelLayer_init_attributes [of c db mt "[]" attrs]
    by (auto simp: HeatmapLabelLayer_init_def split: if_splits)
  have scalar: "\<And>given. ScalarLabelLayer_init c db mt labels given = Inr (l, db') \<longrightarrow>
        (\<exists>unique_labels.
           layer_attributes l = given(''unique_labels'' \<mapsto> JList unique_labels) \<and>
           set unique_labels = snd ` set labels \<and> distinct unique_labels)"
  proof
    fix given
    assume "ScalarLabelLayer_init c db mt labels given = Inr (l, db')"
    then have "LabelLayer_init c db mt labels
        (given(''unique_labels'' \<mapsto> JList (remdups (map snd labels)))) = (l, db')"
      by (simp add: ScalarLabelLayer_init_def split: if_splits)
    then have "layer_attributes l = given(''unique_labels'' \<mapsto> JList (remdups (map snd labels)))"
      using LabelLayer_init_attributes
        [of c db mt labels "given(''unique_labels'' \<mapsto> JList (remdups (map snd labels)))"]
      by simp
    moreover have "set (remdups (map snd labels)) = snd ` set labels"
      "distinct (remdups (map snd labels))"
      by simp_all
    ultimately show "\<exists>unique_labels.
           layer_attributes l = given(''unique_labels'' \<mapsto> JList unique_labels) \<and>
           set unique_labels = snd ` set labels \<and> distinct unique_labels"
      by blast
  qed
  have super: "SupervisedClassifierLabelLayer_init c db mt labels color_map attrs = Inr (l, db') \<longrightarrow>
        (\<exists>unique_labels.
           layer_attributes l =
             attrs(''color_map'' \<mapsto> color_map, ''unique_labels'' \<mapsto> JList unique_labels) \<and>
           set unique_labels = snd ` set labels \<and> distinct unique_labels)"
    unfolding SupervisedClassifierLabelLayer_init_def by (rule scalar)
  from base res heat scalar [of attrs] super show ?thesis
    by blast
qed

theorem constructors_stored_attributes_witness:
  "HeatmapLabelLayer_init ''HeatmapLabelLayer'' empty_tool_db 3 [''feature_id'' \<mapsto> JNum 8]
     = Inr (\<lparr>layer_id = 1, layer_type = ''HeatmapLabelLayer'',
              layer_attributes = [''feature_id'' \<mapsto> JNum 8],
              layer_mapobject_type_id = 3, layer_result_id = None\<rparr>,
            empty_tool_db\<lparr>label_layers :=
              [\<lparr>layer_id = 1, layer_type = ''HeatmapLabelLayer'',
                layer_attributes = [''feature_id'' \<mapsto> JNum 8],
                layer_mapobject_type_id = 3, layer_result_id = None\<rparr>]\<rparr>)
   \<and> [''feature_id'' \<mapsto> JNum 8] ''feature_id'' = Some (JNum 8)
   \<and> map_sum id (\<lambda>r. layer_attributes (fst r) ''unique_labels'')
        (ScalarLabelLayer_init ''ScalarLabelLayer'' empty_tool_db 3 example_labels Map.empty)
     = Inr (Some (JList [JStr ''a'', JNum 5]))
   \<and> map_sum id (\<lambda>r. layer_attributes (fst r) ''color_map'')
        (SupervisedClassifierLabelLayer_init ''SupervisedClassifierLabelLayer'' empty_tool_db 3
           example_labels (JObject [(''5'', JStr ''#ff0000'')]) Map.empty)
     = Inr (Some (JObject [(''5'', JStr ''#ff0000'')]))"
proof -
  have heat: "HeatmapLabelLayer_init ''HeatmapLabelLayer'' empty_tool_db 3 [''feature_id'' \<mapsto> JNum 8]
     = Inr (\<lparr>layer_id = 1, layer_type = ''HeatmapLabelLayer'',
              layer_attributes = [''feature_id'' \<mapsto> JNum 8],
              layer_mapobject_type_id = 3, layer_result_id = None\<rparr>,
            empty_tool_db\<lparr>label_layers :=
              [\<lparr>layer_id = 1, layer_type = ''HeatmapLabelLayer'',
                layer_attributes = [''feature_id'' \<mapsto> JNum 8],
                layer_mapobject_type_id = 3, layer_result_id = None\<rparr>]\<rparr>)"
    by (simp add: HeatmapLabelLayer_init_def LabelLayer_init_def Let_def empty_tool_db_def
        fresh_id_def)
  have scalar: "map_sum id (\<lambda>r. layer_attributes (fst r) ''unique_labels'')
        (ScalarLabelLayer_init ''ScalarLabelLayer'' empty_tool_db 3 example_labels Map.empty)
     = Inr (Some (JList [JStr ''a'', JNum 5]))"
    by (simp add: ScalarLabelLayer_init_def example_labels_def LabelLayer_init_attributes)
  have super: "map_sum id (\<lambda>r. layer_attributes (fst r) ''color_map'')
        (SupervisedClassifierLabelLayer_init ''SupervisedClassifierLabelLayer'' empty_tool_db 3
           example_labels (JObject [(''5'', JStr ''#ff0000'')]) Map.empty)
     = Inr (Some (JObject [(''5'', JStr ''#ff0000'')]))"
    by (simp add: SupervisedClassifierLabelLayer_init_def ScalarLabelLayer_init_def
        example_labels_def LabelLayer_init_attributes)
  from constructors_stored_attributes
    [where c = "''HeatmapLabelLayer''" and db = empty_tool_db and mt = 3
       and attrs = "[''feature_id'' \<mapsto> JNum 8]"]
  have "[''feature_id'' \<mapsto> JNum 8] ''feature_id'' = Some (JNum 8)"
    using heat by simp
  with heat scalar super show ?thesis by blast
qed

end
